theory Spec2Isabelle
  imports Main "HOL-Library.Word" "HOL-Library.Sublist"
begin

unbundle bit_operations_syntax

section \<open>Enumerations of \<^verbatim>\<open>src/enums.ts\<close>\<close>

text \<open>
  A TypeScript numeric enum is a set of named numbers. The small enumerations are
  datatypes together with the number the compiler gives each member (members
  without an initialiser count up from 0 in declaration order).
\<close>

datatype ClassState = NOT_LOADED | LOADED | RESOLVED | INITIALIZED

fun ClassState_value :: "ClassState \<Rightarrow> nat" where
  "ClassState_value NOT_LOADED = 0"
| "ClassState_value LOADED = 1"
| "ClassState_value RESOLVED = 2"
| "ClassState_value INITIALIZED = 3"

datatype OpcodeLayoutType =
    OPCODE_ONLY
  | CONSTANT_POOL_UINT8
  | CONSTANT_POOL
  | CONSTANT_POOL_AND_UINT8_VALUE
  | UINT8_VALUE
  | UINT8_AND_INT8_VALUE
  | INT8_VALUE
  | INT16_VALUE
  | INT32_VALUE
  | ARRAY_TYPE
  | WIDE

subsection \<open>Constants\<close>

text \<open>
  The members of \<^verbatim>\<open>Constants\<close> are JavaScript numbers holding exact integers
  (\<^verbatim>\<open>Math.pow(2, 31)\<close> and \<^verbatim>\<open>Math.pow(2, 128)\<close> are exact in a double), so they
  are integers here.
\<close>

definition INT_MAX :: int where
  "INT_MAX = 2 ^ 31 - 1"

definition INT_MIN :: int where
  "INT_MIN = - INT_MAX - 1"

definition FLOAT_POS_INFINITY :: int where
  "FLOAT_POS_INFINITY = 2 ^ 128"

definition FLOAT_NEG_INFINITY :: int where
  "FLOAT_NEG_INFINITY = -1 * FLOAT_POS_INFINITY"

definition FLOAT_POS_INFINITY_AS_INT :: int where
  "FLOAT_POS_INFINITY_AS_INT = 0x7F800000"

definition FLOAT_NEG_INFINITY_AS_INT :: int where
  "FLOAT_NEG_INFINITY_AS_INT = -8388608"

definition FLOAT_NaN_AS_INT :: int where
  "FLOAT_NaN_AS_INT = 0x7fc00000"

subsection \<open>JVM op codes\<close>

text \<open>
  \<^verbatim>\<open>OpCode\<close> has 222 members, each with an explicit value; a member is used as an
  array index, so it is the number itself.
\<close>

type_synonym OpCode = nat

definition AALOAD :: OpCode where
  "AALOAD = 0x32"

definition AASTORE :: OpCode where
  "AASTORE = 0x53"

definition ACONST_NULL :: OpCode where
  "ACONST_NULL = 0x01"

definition ALOAD :: OpCode where
  "ALOAD = 0x19"

definition ALOAD_0 :: OpCode where
  "ALOAD_0 = 0x2a"

definition ALOAD_1 :: OpCode where
  "ALOAD_1 = 0x2b"

definition ALOAD_2 :: OpCode where
  "ALOAD_2 = 0x2c"

definition ALOAD_3 :: OpCode where
  "ALOAD_3 = 0x2d"

definition ANEWARRAY :: OpCode where
  "ANEWARRAY = 0xbd"

definition ARETURN :: OpCode where
  "ARETURN = 0xb0"

definition ARRAYLENGTH :: OpCode where
  "ARRAYLENGTH = 0xbe"

definition ASTORE :: OpCode where
  "ASTORE = 0x3a"

definition ASTORE_0 :: OpCode where
  "ASTORE_0 = 0x4b"

definition ASTORE_1 :: OpCode where
  "ASTORE_1 = 0x4c"

definition ASTORE_2 :: OpCode where
  "ASTORE_2 = 0x4d"

definition ASTORE_3 :: OpCode where
  "ASTORE_3 = 0x4e"

definition ATHROW :: OpCode where
  "ATHROW = 0xbf"

definition BALOAD :: OpCode where
  "BALOAD = 0x33"

definition BASTORE :: OpCode where
  "BASTORE = 0x54"

definition BIPUSH :: OpCode where
  "BIPUSH = 0x10"

definition BREAKPOINT :: OpCode where
  "BREAKPOINT = 0xca"

definition CALOAD :: OpCode where
  "CALOAD = 0x34"

definition CASTORE :: OpCode where
  "CASTORE = 0x55"

definition CHECKCAST :: OpCode where
  "CHECKCAST = 0xc0"

definition D2F :: OpCode where
  "D2F = 0x90"

definition D2I :: OpCode where
  "D2I = 0x8e"

definition D2L :: OpCode where
  "D2L = 0x8f"

definition DADD :: OpCode where
  "DADD = 0x63"

definition DALOAD :: OpCode where
  "DALOAD = 0x31"

definition DASTORE :: OpCode where
  "DASTORE = 0x52"

definition DCMPG :: OpCode where
  "DCMPG = 0x98"

definition DCMPL :: OpCode where
  "DCMPL = 0x97"

definition DCONST_0 :: OpCode where
  "DCONST_0 = 0x0e"

definition DCONST_1 :: OpCode where
  "DCONST_1 = 0x0f"

definition DDIV :: OpCode where
  "DDIV = 0x6f"

definition DLOAD :: OpCode where
  "DLOAD = 0x18"

definition DLOAD_0 :: OpCode where
  "DLOAD_0 = 0x26"

definition DLOAD_1 :: OpCode where
  "DLOAD_1 = 0x27"

definition DLOAD_2 :: OpCode where
  "DLOAD_2 = 0x28"

definition DLOAD_3 :: OpCode where
  "DLOAD_3 = 0x29"

definition DMUL :: OpCode where
  "DMUL = 0x6b"

definition DNEG :: OpCode where
  "DNEG = 0x77"

definition DREM :: OpCode where
  "DREM = 0x73"

definition DRETURN :: OpCode where
  "DRETURN = 0xaf"

definition DSTORE :: OpCode where
  "DSTORE = 0x39"

definition DSTORE_0 :: OpCode where
  "DSTORE_0 = 0x47"

definition DSTORE_1 :: OpCode where
  "DSTORE_1 = 0x48"

definition DSTORE_2 :: OpCode where
  "DSTORE_2 = 0x49"

definition DSTORE_3 :: OpCode where
  "DSTORE_3 = 0x4a"

definition DSUB :: OpCode where
  "DSUB = 0x67"

definition DUP :: OpCode where
  "DUP = 0x59"

definition DUP_X1 :: OpCode where
  "DUP_X1 = 0x5a"

definition DUP_X2 :: OpCode where
  "DUP_X2 = 0x5b"

definition DUP2 :: OpCode where
  "DUP2 = 0x5c"

definition DUP2_X1 :: OpCode where
  "DUP2_X1 = 0x5d"

definition DUP2_X2 :: OpCode where
  "DUP2_X2 = 0x5e"

definition F2D :: OpCode where
  "F2D = 0x8d"

definition F2I :: OpCode where
  "F2I = 0x8b"

definition F2L :: OpCode where
  "F2L = 0x8c"

definition FADD :: OpCode where
  "FADD = 0x62"

definition FALOAD :: OpCode where
  "FALOAD = 0x30"

definition FASTORE :: OpCode where
  "FASTORE = 0x51"

definition FCMPG :: OpCode where
  "FCMPG = 0x96"

definition FCMPL :: OpCode where
  "FCMPL = 0x95"

definition FCONST_0 :: OpCode where
  "FCONST_0 = 0x0b"

definition FCONST_1 :: OpCode where
  "FCONST_1 = 0x0c"

definition FCONST_2 :: OpCode where
  "FCONST_2 = 0x0d"

definition FDIV :: OpCode where
  "FDIV = 0x6e"

definition FLOAD :: OpCode where
  "FLOAD = 0x17"

definition FLOAD_0 :: OpCode where
  "FLOAD_0 = 0x22"

definition FLOAD_1 :: OpCode where
  "FLOAD_1 = 0x23"

definition FLOAD_2 :: OpCode where
  "FLOAD_2 = 0x24"

definition FLOAD_3 :: OpCode where
  "FLOAD_3 = 0x25"

definition FMUL :: OpCode where
  "FMUL = 0x6a"

definition FNEG :: OpCode where
  "FNEG = 0x76"

definition FREM :: OpCode where
  "FREM = 0x72"

definition FRETURN :: OpCode where
  "FRETURN = 0xae"

definition FSTORE :: OpCode where
  "FSTORE = 0x38"

definition FSTORE_0 :: OpCode where
  "FSTORE_0 = 0x43"

definition FSTORE_1 :: OpCode where
  "FSTORE_1 = 0x44"

definition FSTORE_2 :: OpCode where
  "FSTORE_2 = 0x45"

definition FSTORE_3 :: OpCode where
  "FSTORE_3 = 0x46"

definition FSUB :: OpCode where
  "FSUB = 0x66"

definition GETFIELD :: OpCode where
  "GETFIELD = 0xb4"

definition GETSTATIC :: OpCode where
  "GETSTATIC = 0xb2"

definition GOTO :: OpCode where
  "GOTO = 0xa7"

definition GOTO_W :: OpCode where
  "GOTO_W = 0xc8"

definition I2B :: OpCode where
  "I2B = 0x91"

definition I2C :: OpCode where
  "I2C = 0x92"

definition I2D :: OpCode where
  "I2D = 0x87"

definition I2F :: OpCode where
  "I2F = 0x86"

definition I2L :: OpCode where
  "I2L = 0x85"

definition I2S :: OpCode where
  "I2S = 0x93"

definition IADD :: OpCode where
  "IADD = 0x60"

definition IALOAD :: OpCode where
  "IALOAD = 0x2e"

definition IAND :: OpCode where
  "IAND = 0x7e"

definition IASTORE :: OpCode where
  "IASTORE = 0x4f"

definition ICONST_M1 :: OpCode where
  "ICONST_M1 = 0x2"

definition ICONST_0 :: OpCode where
  "ICONST_0 = 3"

definition ICONST_1 :: OpCode where
  "ICONST_1 = 4"

definition ICONST_2 :: OpCode where
  "ICONST_2 = 5"

definition ICONST_3 :: OpCode where
  "ICONST_3 = 6"

definition ICONST_4 :: OpCode where
  "ICONST_4 = 7"

definition ICONST_5 :: OpCode where
  "ICONST_5 = 8"

definition IDIV :: OpCode where
  "IDIV = 0x6c"

definition IF_ACMPEQ :: OpCode where
  "IF_ACMPEQ = 0xa5"

definition IF_ACMPNE :: OpCode where
  "IF_ACMPNE = 0xa6"

definition IF_ICMPEQ :: OpCode where
  "IF_ICMPEQ = 0x9f"

definition IF_ICMPGE :: OpCode where
  "IF_ICMPGE = 0xa2"

definition IF_ICMPGT :: OpCode where
  "IF_ICMPGT = 0xa3"

definition IF_ICMPLE :: OpCode where
  "IF_ICMPLE = 0xa4"

definition IF_ICMPLT :: OpCode where
  "IF_ICMPLT = 0xa1"

definition IF_ICMPNE :: OpCode where
  "IF_ICMPNE = 0xa0"

definition IFEQ :: OpCode where
  "IFEQ = 0x99"

definition IFGE :: OpCode where
  "IFGE = 0x9c"

definition IFGT :: OpCode where
  "IFGT = 0x9d"

definition IFLE :: OpCode where
  "IFLE = 0x9e"

definition IFLT :: OpCode where
  "IFLT = 0x9b"

definition IFNE :: OpCode where
  "IFNE = 0x9a"

definition IFNONNULL :: OpCode where
  "IFNONNULL = 0xc7"

definition IFNULL :: OpCode where
  "IFNULL = 0xc6"

definition IINC :: OpCode where
  "IINC = 0x84"

definition ILOAD :: OpCode where
  "ILOAD = 0x15"

definition ILOAD_0 :: OpCode where
  "ILOAD_0 = 0x1a"

definition ILOAD_1 :: OpCode where
  "ILOAD_1 = 0x1b"

definition ILOAD_2 :: OpCode where
  "ILOAD_2 = 0x1c"

definition ILOAD_3 :: OpCode where
  "ILOAD_3 = 0x1d"

definition IMUL :: OpCode where
  "IMUL = 0x68"

definition INEG :: OpCode where
  "INEG = 0x74"

definition INSTANCEOF :: OpCode where
  "INSTANCEOF = 0xc1"

definition INVOKEDYNAMIC :: OpCode where
  "INVOKEDYNAMIC = 0xba"

definition INVOKEINTERFACE :: OpCode where
  "INVOKEINTERFACE = 0xb9"

definition INVOKESPECIAL :: OpCode where
  "INVOKESPECIAL = 0xb7"

definition INVOKESTATIC :: OpCode where
  "INVOKESTATIC = 0xb8"

definition INVOKEVIRTUAL :: OpCode where
  "INVOKEVIRTUAL = 0xb6"

definition IOR :: OpCode where
  "IOR = 0x80"

definition IREM :: OpCode where
  "IREM = 0x70"

definition IRETURN :: OpCode where
  "IRETURN = 0xac"

definition ISHL :: OpCode where
  "ISHL = 0x78"

definition ISHR :: OpCode where
  "ISHR = 0x7a"

definition ISTORE :: OpCode where
  "ISTORE = 0x36"

definition ISTORE_0 :: OpCode where
  "ISTORE_0 = 0x3b"

definition ISTORE_1 :: OpCode where
  "ISTORE_1 = 0x3c"

definition ISTORE_2 :: OpCode where
  "ISTORE_2 = 0x3d"

definition ISTORE_3 :: OpCode where
  "ISTORE_3 = 0x3e"

definition ISUB :: OpCode where
  "ISUB = 0x64"

definition IUSHR :: OpCode where
  "IUSHR = 0x7c"

definition IXOR :: OpCode where
  "IXOR = 0x82"

definition JSR :: OpCode where
  "JSR = 0xa8"

definition JSR_W :: OpCode where
  "JSR_W = 0xc9"

definition L2D :: OpCode where
  "L2D = 0x8a"

definition L2F :: OpCode where
  "L2F = 0x89"

definition L2I :: OpCode where
  "L2I = 0x88"

definition LADD :: OpCode where
  "LADD = 0x61"

definition LALOAD :: OpCode where
  "LALOAD = 0x2f"

definition LAND :: OpCode where
  "LAND = 0x7f"

definition LASTORE :: OpCode where
  "LASTORE = 0x50"

definition LCMP :: OpCode where
  "LCMP = 0x94"

definition LCONST_0 :: OpCode where
  "LCONST_0 = 0x09"

definition LCONST_1 :: OpCode where
  "LCONST_1 = 0x0a"

definition LDC :: OpCode where
  "LDC = 0x12"

definition LDC_W :: OpCode where
  "LDC_W = 0x13"

definition LDC2_W :: OpCode where
  "LDC2_W = 0x14"

definition LDIV :: OpCode where
  "LDIV = 0x6d"

definition LLOAD :: OpCode where
  "LLOAD = 0x16"

definition LLOAD_0 :: OpCode where
  "LLOAD_0 = 0x1e"

definition LLOAD_1 :: OpCode where
  "LLOAD_1 = 0x1f"

definition LLOAD_2 :: OpCode where
  "LLOAD_2 = 0x20"

definition LLOAD_3 :: OpCode where
  "LLOAD_3 = 0x21"

definition LMUL :: OpCode where
  "LMUL = 0x69"

definition LNEG :: OpCode where
  "LNEG = 0x75"

definition LOOKUPSWITCH :: OpCode where
  "LOOKUPSWITCH = 0xab"

definition LOR :: OpCode where
  "LOR = 0x81"

definition LREM :: OpCode where
  "LREM = 0x71"

definition LRETURN :: OpCode where
  "LRETURN = 0xad"

definition LSHL :: OpCode where
  "LSHL = 0x79"

definition LSHR :: OpCode where
  "LSHR = 0x7b"

definition LSTORE :: OpCode where
  "LSTORE = 0x37"

definition LSTORE_0 :: OpCode where
  "LSTORE_0 = 0x3f"

definition LSTORE_1 :: OpCode where
  "LSTORE_1 = 0x40"

definition LSTORE_2 :: OpCode where
  "LSTORE_2 = 0x41"

definition LSTORE_3 :: OpCode where
  "LSTORE_3 = 0x42"

definition LSUB :: OpCode where
  "LSUB = 0x65"

definition LUSHR :: OpCode where
  "LUSHR = 0x7d"

definition LXOR :: OpCode where
  "LXOR = 0x83"

definition MONITORENTER :: OpCode where
  "MONITORENTER = 0xc2"

definition MONITOREXIT :: OpCode where
  "MONITOREXIT = 0xc3"

definition MULTIANEWARRAY :: OpCode where
  "MULTIANEWARRAY = 0xc5"

definition NEW :: OpCode where
  "NEW = 0xbb"

definition NEWARRAY :: OpCode where
  "NEWARRAY = 0xbc"

definition NOP :: OpCode where
  "NOP = 0x00"

definition POP :: OpCode where
  "POP = 0x57"

definition POP2 :: OpCode where
  "POP2 = 0x58"

definition PUTFIELD :: OpCode where
  "PUTFIELD = 0xb5"

definition PUTSTATIC :: OpCode where
  "PUTSTATIC = 0xb3"

definition RET :: OpCode where
  "RET = 0xa9"

definition RETURN :: OpCode where
  "RETURN = 0xb1"

definition SALOAD :: OpCode where
  "SALOAD = 0x35"

definition SASTORE :: OpCode where
  "SASTORE = 0x56"

definition SIPUSH :: OpCode where
  "SIPUSH = 0x11"

definition SWAP :: OpCode where
  "SWAP = 0x5f"

definition TABLESWITCH :: OpCode where
  "TABLESWITCH = 0xaa"

definition WIDE :: OpCode where
  "WIDE = 0xc4"

definition GETSTATIC_FAST32 :: OpCode where
  "GETSTATIC_FAST32 = 0xd0"

definition GETSTATIC_FAST64 :: OpCode where
  "GETSTATIC_FAST64 = 0xd1"

definition NEW_FAST :: OpCode where
  "NEW_FAST = 0xd2"

definition NEW_CL_FAST :: OpCode where
  "NEW_CL_FAST = 0xd3"

definition NEW_THREAD_FAST :: OpCode where
  "NEW_THREAD_FAST = 0xd4"

definition ANEWARRAY_FAST :: OpCode where
  "ANEWARRAY_FAST = 0xd5"

definition CHECKCAST_FAST :: OpCode where
  "CHECKCAST_FAST = 0xd6"

definition INSTANCEOF_FAST :: OpCode where
  "INSTANCEOF_FAST = 0xd7"

definition MULTIANEWARRAY_FAST :: OpCode where
  "MULTIANEWARRAY_FAST = 0xd8"

definition PUTSTATIC_FAST32 :: OpCode where
  "PUTSTATIC_FAST32 = 0xd9"

definition PUTSTATIC_FAST64 :: OpCode where
  "PUTSTATIC_FAST64 = 0xda"

definition GETFIELD_FAST32 :: OpCode where
  "GETFIELD_FAST32 = 0xdb"

definition GETFIELD_FAST64 :: OpCode where
  "GETFIELD_FAST64 = 0xdc"

definition PUTFIELD_FAST32 :: OpCode where
  "PUTFIELD_FAST32 = 0xdd"

definition PUTFIELD_FAST64 :: OpCode where
  "PUTFIELD_FAST64 = 0xde"

definition INVOKESPECIAL_FAST :: OpCode where
  "INVOKESPECIAL_FAST = 0xdf"

definition INVOKESTATIC_FAST :: OpCode where
  "INVOKESTATIC_FAST = 0xf0"

definition INVOKEVIRTUAL_FAST :: OpCode where
  "INVOKEVIRTUAL_FAST = 0xf1"

definition INVOKEINTERFACE_FAST :: OpCode where
  "INVOKEINTERFACE_FAST = 0xf2"

text \<open>The members of \<^verbatim>\<open>OpCode\<close>, in declaration order.\<close>

definition OpCode_members :: "OpCode list" where
  "OpCode_members =
    [AALOAD, AASTORE, ACONST_NULL, ALOAD, ALOAD_0, ALOAD_1, ALOAD_2,
     ALOAD_3, ANEWARRAY, ARETURN, ARRAYLENGTH, ASTORE, ASTORE_0, ASTORE_1,
     ASTORE_2, ASTORE_3, ATHROW, BALOAD, BASTORE, BIPUSH, BREAKPOINT,
     CALOAD, CASTORE, CHECKCAST, D2F, D2I, D2L, DADD, DALOAD, DASTORE,
     DCMPG, DCMPL, DCONST_0, DCONST_1, DDIV, DLOAD, DLOAD_0, DLOAD_1,
     DLOAD_2, DLOAD_3, DMUL, DNEG, DREM, DRETURN, DSTORE, DSTORE_0,
     DSTORE_1, DSTORE_2, DSTORE_3, DSUB, DUP, DUP_X1, DUP_X2, DUP2, DUP2_X1,
     DUP2_X2, F2D, F2I, F2L, FADD, FALOAD, FASTORE, FCMPG, FCMPL, FCONST_0,
     FCONST_1, FCONST_2, FDIV, FLOAD, FLOAD_0, FLOAD_1, FLOAD_2, FLOAD_3,
     FMUL, FNEG, FREM, FRETURN, FSTORE, FSTORE_0, FSTORE_1, FSTORE_2,
     FSTORE_3, FSUB, GETFIELD, GETSTATIC, GOTO, GOTO_W, I2B, I2C, I2D, I2F,
     I2L, I2S, IADD, IALOAD, IAND, IASTORE, ICONST_M1, ICONST_0, ICONST_1,
     ICONST_2, ICONST_3, ICONST_4, ICONST_5, IDIV, IF_ACMPEQ, IF_ACMPNE,
     IF_ICMPEQ, IF_ICMPGE, IF_ICMPGT, IF_ICMPLE, IF_ICMPLT, IF_ICMPNE, IFEQ,
     IFGE, IFGT, IFLE, IFLT, IFNE, IFNONNULL, IFNULL, IINC, ILOAD, ILOAD_0,
     ILOAD_1, ILOAD_2, ILOAD_3, IMUL, INEG, INSTANCEOF, INVOKEDYNAMIC,
     INVOKEINTERFACE, INVOKESPECIAL, INVOKESTATIC, INVOKEVIRTUAL, IOR, IREM,
     IRETURN, ISHL, ISHR, ISTORE, ISTORE_0, ISTORE_1, ISTORE_2, ISTORE_3,
     ISUB, IUSHR, IXOR, JSR, JSR_W, L2D, L2F, L2I, LADD, LALOAD, LAND,
     LASTORE, LCMP, LCONST_0, LCONST_1, LDC, LDC_W, LDC2_W, LDIV, LLOAD,
     LLOAD_0, LLOAD_1, LLOAD_2, LLOAD_3, LMUL, LNEG, LOOKUPSWITCH, LOR,
     LREM, LRETURN, LSHL, LSHR, LSTORE, LSTORE_0, LSTORE_1, LSTORE_2,
     LSTORE_3, LSUB, LUSHR, LXOR, MONITORENTER, MONITOREXIT, MULTIANEWARRAY,
     NEW, NEWARRAY, NOP, POP, POP2, PUTFIELD, PUTSTATIC, RET, RETURN,
     SALOAD, SASTORE, SIPUSH, SWAP, TABLESWITCH, WIDE, GETSTATIC_FAST32,
     GETSTATIC_FAST64, NEW_FAST, NEW_CL_FAST, NEW_THREAD_FAST,
     ANEWARRAY_FAST, CHECKCAST_FAST, INSTANCEOF_FAST, MULTIANEWARRAY_FAST,
     PUTSTATIC_FAST32, PUTSTATIC_FAST64, GETFIELD_FAST32, GETFIELD_FAST64,
     PUTFIELD_FAST32, PUTFIELD_FAST64, INVOKESPECIAL_FAST,
     INVOKESTATIC_FAST, INVOKEVIRTUAL_FAST, INVOKEINTERFACE_FAST]"

section \<open>The opcode layout table\<close>

text \<open>
  A JavaScript array is a list of slots; a slot that was never written (a hole) reads
  as \<^verbatim>\<open>undefined\<close>, which is \<open>None\<close> here, and so does every index at or beyond the
  length. Writing at or beyond the length extends the array with holes.
\<close>

type_synonym 'a js_array = "'a option list"

definition new_Array :: "nat \<Rightarrow> 'a js_array" where
  "new_Array n = replicate n None"

definition array_get :: "'a js_array \<Rightarrow> nat \<Rightarrow> 'a option" where
  "array_get a i = (if i < length a then a ! i else None)"

definition array_set :: "'a js_array \<Rightarrow> nat \<Rightarrow> 'a \<Rightarrow> 'a js_array" where
  "array_set a i v =
     (if i < length a then a[i := Some v]
      else a @ replicate (i - length a) None @ [Some v])"

text \<open>
  \<^verbatim>\<open>var olt = new Array(0xff)\<close> followed by the loop
  \<^verbatim>\<open>for (var i = 0; i < 0xff; i++) olt[i] = OPCODE_ONLY\<close>.
\<close>

definition olt_init :: "OpcodeLayoutType js_array" where
  "olt_init = fold (\<lambda>i olt. array_set olt i OPCODE_ONLY) [0..<0xff] (new_Array 0xff)"

text \<open>\<^verbatim>\<open>opcodes.forEach((opcode) => { olt[opcode] = layoutType; })\<close> on the table \<open>olt\<close>.\<close>

definition assignOpcodeLayout ::
  "OpcodeLayoutType \<Rightarrow> OpCode list \<Rightarrow> OpcodeLayoutType js_array \<Rightarrow> OpcodeLayoutType js_array" where
  "assignOpcodeLayout layoutType opcodes olt =
     fold (\<lambda>opcode olt. array_set olt opcode layoutType) opcodes olt"

text \<open>The nine calls of \<^verbatim>\<open>assignOpcodeLayout\<close> at module load, in source order.\<close>

definition layout_assignments :: "(OpcodeLayoutType \<times> OpCode list) list" where
  "layout_assignments =
    [(UINT8_VALUE,
       [ALOAD, ASTORE, DLOAD, DSTORE, FLOAD, FSTORE, ILOAD, ISTORE, LLOAD,
        LSTORE, RET]),
     (CONSTANT_POOL_UINT8,
       [LDC]),
     (CONSTANT_POOL,
       [LDC_W, LDC2_W, ANEWARRAY, CHECKCAST, GETFIELD, GETSTATIC,
        INSTANCEOF, INVOKEDYNAMIC, INVOKESPECIAL, INVOKESTATIC,
        INVOKEVIRTUAL, NEW, PUTFIELD, PUTSTATIC, MULTIANEWARRAY_FAST,
        INVOKESPECIAL_FAST, INVOKESTATIC_FAST, CHECKCAST_FAST, NEW_FAST,
        NEW_CL_FAST, NEW_THREAD_FAST, ANEWARRAY_FAST, INSTANCEOF_FAST,
        GETSTATIC_FAST32, GETSTATIC_FAST64, PUTSTATIC_FAST32,
        PUTSTATIC_FAST64, PUTFIELD_FAST32, PUTFIELD_FAST64, GETFIELD_FAST32,
        GETFIELD_FAST64, INVOKEVIRTUAL_FAST]),
     (CONSTANT_POOL_AND_UINT8_VALUE,
       [INVOKEINTERFACE, MULTIANEWARRAY, INVOKEINTERFACE_FAST]),
     (INT8_VALUE,
       [BIPUSH]),
     (INT16_VALUE,
       [SIPUSH, GOTO, IFGT, IFEQ, IFGE, IFLE, IFLT, IFNE, IFNULL, IFNONNULL,
        IF_ICMPLE, IF_ACMPEQ, IF_ACMPNE, IF_ICMPEQ, IF_ICMPGE, IF_ICMPGT,
        IF_ICMPLT, IF_ICMPNE, JSR]),
     (INT32_VALUE,
       [GOTO_W, JSR_W]),
     (UINT8_AND_INT8_VALUE,
       [IINC]),
     (ARRAY_TYPE,
       [NEWARRAY])]"

text \<open>Running a sequence of assignment calls on a table.\<close>

definition run_assignments ::
  "(OpcodeLayoutType \<times> OpCode list) list \<Rightarrow> OpcodeLayoutType js_array \<Rightarrow> OpcodeLayoutType js_array" where
  "run_assignments calls olt = fold (\<lambda>(layoutType, opcodes) olt. assignOpcodeLayout layoutType opcodes olt) calls olt"

text \<open>\<^verbatim>\<open>export var OpcodeLayouts = olt\<close>: the table after module load.\<close>

definition OpcodeLayouts :: "OpcodeLayoutType js_array" where
  "OpcodeLayouts = run_assignments layout_assignments olt_init"

text \<open>The lookup \<^verbatim>\<open>OpcodeLayouts[b]\<close> of an opcode byte.\<close>

definition layoutOf :: "nat \<Rightarrow> OpcodeLayoutType option" where
  "layoutOf b = array_get OpcodeLayouts b"

text \<open>
  The layout that the calls leave at index \<open>i\<close>, if any call lists \<open>i\<close>: the
  last call that lists it wins.
\<close>

fun last_assigned :: "(OpcodeLayoutType \<times> OpCode list) list \<Rightarrow> nat \<Rightarrow> OpcodeLayoutType option" where
  "last_assigned [] i = None"
| "last_assigned ((layoutType, opcodes) # calls) i =
     (case last_assigned calls i of
        Some l \<Rightarrow> Some l
      | None \<Rightarrow> if i \<in> set opcodes then Some layoutType else None)"

text \<open>
  The members under the comment \<^verbatim>\<open>Special Doppio 'fast' opcodes\<close>, each paired with
  the member it is named after.
\<close>

definition fast_variants :: "(OpCode \<times> OpCode) list" where
  "fast_variants =
    [(GETSTATIC_FAST32, GETSTATIC), (GETSTATIC_FAST64, GETSTATIC),
     (NEW_FAST, NEW), (NEW_CL_FAST, NEW), (NEW_THREAD_FAST, NEW),
     (ANEWARRAY_FAST, ANEWARRAY), (CHECKCAST_FAST, CHECKCAST),
     (INSTANCEOF_FAST, INSTANCEOF), (MULTIANEWARRAY_FAST, MULTIANEWARRAY),
     (PUTSTATIC_FAST32, PUTSTATIC), (PUTSTATIC_FAST64, PUTSTATIC),
     (GETFIELD_FAST32, GETFIELD), (GETFIELD_FAST64, GETFIELD),
     (PUTFIELD_FAST32, PUTFIELD), (PUTFIELD_FAST64, PUTFIELD),
     (INVOKESPECIAL_FAST, INVOKESPECIAL), (INVOKESTATIC_FAST, INVOKESTATIC),
     (INVOKEVIRTUAL_FAST, INVOKEVIRTUAL), (INVOKEINTERFACE_FAST, INVOKEINTERFACE)]"

section \<open>Float and int reinterpretation\<close>

text \<open>
  Modelled from the spec: the conversions \<^verbatim>\<open>floatBitsToInt\<close> and \<^verbatim>\<open>intBitsToFloat\<close> are
  not in \<^verbatim>\<open>enums.ts\<close>, which holds only the constants they use. The spec (4.4) asks
  that \<^verbatim>\<open>floatBitsToInt\<close> maps any NaN to the canonical NaN pattern, the two
  infinities to their fixed patterns and every other float to its bit pattern, read as
  a signed 32-bit integer, and that \<^verbatim>\<open>intBitsToFloat\<close> is the inverse, total over all
  32-bit inputs. A float is its IEEE-754 single-precision fields: sign, 8-bit biased
  exponent, 23-bit fraction.
\<close>

datatype float32 = Float32 (sign: bool) (exponent: "8 word") (fraction: "23 word")

definition isNaN :: "float32 \<Rightarrow> bool" where
  "isNaN f \<longleftrightarrow> exponent f = 0xFF \<and> fraction f \<noteq> 0"

definition isFinite :: "float32 \<Rightarrow> bool" where
  "isFinite f \<longleftrightarrow> exponent f \<noteq> 0xFF"

definition POSITIVE_INFINITY :: float32 where
  "POSITIVE_INFINITY = Float32 False 0xFF 0"

definition NEGATIVE_INFINITY :: float32 where
  "NEGATIVE_INFINITY = Float32 True 0xFF 0"

definition float_bits :: "float32 \<Rightarrow> 32 word" where
  "float_bits f =
     push_bit 31 (of_bool (sign f)) OR push_bit 23 (ucast (exponent f)) OR ucast (fraction f)"

definition floatBitsToInt :: "float32 \<Rightarrow> int" where
  "floatBitsToInt f =
     (if isNaN f then FLOAT_NaN_AS_INT
      else if f = POSITIVE_INFINITY then FLOAT_POS_INFINITY_AS_INT
      else if f = NEGATIVE_INFINITY then FLOAT_NEG_INFINITY_AS_INT
      else sint (float_bits f))"

definition intBitsToFloat :: "int \<Rightarrow> float32" where
  "intBitsToFloat i =
     (let w = (word_of_int i :: 32 word)
      in Float32 (bit w 31) (ucast (drop_bit 23 w)) (ucast w))"

section \<open>The class lifecycle\<close>

text \<open>
  Modelled from the spec: the loading pipeline that changes a class's state is not in
  \<^verbatim>\<open>enums.ts\<close>, which declares only the states. The spec (4.3, 7) gives a linear
  progression in which no step is skipped or reversed: a request for the next state
  succeeds, a request for \<open>INITIALIZED\<close> on an \<open>INITIALIZED\<close> class is a no-op
  success, and every other request is rejected with a state-precondition fault and
  leaves the state as it is.
\<close>

datatype fault = StatePreconditionFault

definition advance :: "ClassState \<Rightarrow> ClassState \<Rightarrow> fault + ClassState" where
  "advance current target =
     (if ClassState_value target = ClassState_value current + 1 then Inr target
      else if current = INITIALIZED \<and> target = INITIALIZED then Inr INITIALIZED
      else Inl StatePreconditionFault)"

text \<open>
  The states observed over time for a class in state \<open>s\<close> that receives the requests
  in order: the state it starts in, then its state after each change.
\<close>

fun observed :: "ClassState \<Rightarrow> ClassState list \<Rightarrow> ClassState list" where
  "observed s [] = [s]"
| "observed s (t # ts) =
     (case advance s t of
        Inl _ \<Rightarrow> observed s ts
      | Inr s' \<Rightarrow> if s' = s then observed s ts else s # observed s' ts)"

definition lifecycle :: "ClassState list" where
  "lifecycle = [NOT_LOADED, LOADED, RESOLVED, INITIALIZED]"

section \<open>The opcode values\<close>

lemmas OpCode_defs =
  AALOAD_def AASTORE_def ACONST_NULL_def ALOAD_def ALOAD_0_def
  ALOAD_1_def ALOAD_2_def ALOAD_3_def ANEWARRAY_def ARETURN_def
  ARRAYLENGTH_def ASTORE_def ASTORE_0_def ASTORE_1_def ASTORE_2_def
  ASTORE_3_def ATHROW_def BALOAD_def BASTORE_def BIPUSH_def
  BREAKPOINT_def CALOAD_def CASTORE_def CHECKCAST_def D2F_def D2I_def
  D2L_def DADD_def DALOAD_def DASTORE_def DCMPG_def DCMPL_def
  DCONST_0_def DCONST_1_def DDIV_def DLOAD_def DLOAD_0_def DLOAD_1_def
  DLOAD_2_def DLOAD_3_def DMUL_def DNEG_def DREM_def DRETURN_def
  DSTORE_def DSTORE_0_def DSTORE_1_def DSTORE_2_def DSTORE_3_def
  DSUB_def DUP_def DUP_X1_def DUP_X2_def DUP2_def DUP2_X1_def
  DUP2_X2_def F2D_def F2I_def F2L_def FADD_def FALOAD_def FASTORE_def
  FCMPG_def FCMPL_def FCONST_0_def FCONST_1_def FCONST_2_def FDIV_def
  FLOAD_def FLOAD_0_def FLOAD_1_def FLOAD_2_def FLOAD_3_def FMUL_def
  FNEG_def FREM_def FRETURN_def FSTORE_def FSTORE_0_def FSTORE_1_def
  FSTORE_2_def FSTORE_3_def FSUB_def GETFIELD_def GETSTATIC_def
  GOTO_def GOTO_W_def I2B_def I2C_def I2D_def I2F_def I2L_def
  I2S_def IADD_def IALOAD_def IAND_def IASTORE_def ICONST_M1_def
  ICONST_0_def ICONST_1_def ICONST_2_def ICONST_3_def ICONST_4_def
  ICONST_5_def IDIV_def IF_ACMPEQ_def IF_ACMPNE_def IF_ICMPEQ_def
  IF_ICMPGE_def IF_ICMPGT_def IF_ICMPLE_def IF_ICMPLT_def IF_ICMPNE_def
  IFEQ_def IFGE_def IFGT_def IFLE_def IFLT_def IFNE_def IFNONNULL_def
  IFNULL_def IINC_def ILOAD_def ILOAD_0_def ILOAD_1_def ILOAD_2_def
  ILOAD_3_def IMUL_def INEG_def INSTANCEOF_def INVOKEDYNAMIC_def
  INVOKEINTERFACE_def INVOKESPECIAL_def INVOKESTATIC_def
  INVOKEVIRTUAL_def IOR_def IREM_def IRETURN_def ISHL_def ISHR_def
  ISTORE_def ISTORE_0_def ISTORE_1_def ISTORE_2_def ISTORE_3_def
  ISUB_def IUSHR_def IXOR_def JSR_def JSR_W_def L2D_def L2F_def
  L2I_def LADD_def LALOAD_def LAND_def LASTORE_def LCMP_def
  LCONST_0_def LCONST_1_def LDC_def LDC_W_def LDC2_W_def LDIV_def
  LLOAD_def LLOAD_0_def LLOAD_1_def LLOAD_2_def LLOAD_3_def LMUL_def
  LNEG_def LOOKUPSWITCH_def LOR_def LREM_def LRETURN_def LSHL_def
  LSHR_def LSTORE_def LSTORE_0_def LSTORE_1_def LSTORE_2_def
  LSTORE_3_def LSUB_def LUSHR_def LXOR_def MONITORENTER_def
  MONITOREXIT_def MULTIANEWARRAY_def NEW_def NEWARRAY_def NOP_def
  POP_def POP2_def PUTFIELD_def PUTSTATIC_def RET_def RETURN_def
  SALOAD_def SASTORE_def SIPUSH_def SWAP_def TABLESWITCH_def WIDE_def
  GETSTATIC_FAST32_def GETSTATIC_FAST64_def NEW_FAST_def NEW_CL_FAST_def
  NEW_THREAD_FAST_def ANEWARRAY_FAST_def CHECKCAST_FAST_def
  INSTANCEOF_FAST_def MULTIANEWARRAY_FAST_def PUTSTATIC_FAST32_def
  PUTSTATIC_FAST64_def GETFIELD_FAST32_def GETFIELD_FAST64_def
  PUTFIELD_FAST32_def PUTFIELD_FAST64_def INVOKESPECIAL_FAST_def
  INVOKESTATIC_FAST_def INVOKEVIRTUAL_FAST_def INVOKEINTERFACE_FAST_def

section \<open>Properties of the array operations\<close>

lemma length_array_set: "length (array_set a i v) = max (length a) (Suc i)"
  by (auto simp: array_set_def)

lemma array_get_array_set:
  "array_get (array_set a i v) j = (if j = i then Some v else array_get a j)"
  by (auto simp: array_get_def array_set_def nth_append)

lemma array_get_assignOpcodeLayout:
  "array_get (assignOpcodeLayout l ops t) i = (if i \<in> set ops then Some l else array_get t i)"
  unfolding assignOpcodeLayout_def
  by (induction ops arbitrary: t) (auto simp: array_get_array_set)

lemma length_assignOpcodeLayout:
  "list_all (\<lambda>op. op < length t) ops \<Longrightarrow> length (assignOpcodeLayout l ops t) = length t"
  unfolding assignOpcodeLayout_def
  by (induction ops arbitrary: t) (auto simp: length_array_set)

lemma length_run_assignments:
  "list_all (\<lambda>(l, ops). list_all (\<lambda>op. op < length t) ops) calls \<Longrightarrow>
   length (run_assignments calls t) = length t"
  unfolding run_assignments_def
  by (induction calls arbitrary: t) (auto simp: length_assignOpcodeLayout)

lemma array_get_run_assignments:
  "array_get (run_assignments calls t) i =
     (case last_assigned calls i of Some l \<Rightarrow> Some l | None \<Rightarrow> array_get t i)"
  unfolding run_assignments_def
  by (induction calls arbitrary: t)
     (auto simp: array_get_assignOpcodeLayout split: option.splits)

lemma last_assigned_None:
  "i \<notin> set (concat (map snd calls)) \<Longrightarrow> last_assigned calls i = None"
  by (induction calls) auto

lemma last_assigned_distinct:
  "distinct (concat (map snd calls)) \<Longrightarrow> (l, ops) \<in> set calls \<Longrightarrow> i \<in> set ops \<Longrightarrow>
   last_assigned calls i = Some l"
proof (induction calls)
  case Nil
  then show ?case by simp
next
  case (Cons c calls)
  obtain l0 ops0 where c: "c = (l0, ops0)" by (cases c)
  show ?case
  proof (cases "(l, ops) \<in> set calls")
    case True
    then show ?thesis using Cons c by simp
  next
    case False
    then have eq: "l0 = l" "ops0 = ops" using Cons.prems(2) c by auto
    have "i \<notin> set (concat (map snd calls))"
      using Cons.prems(1,3) c eq by auto
    then have "last_assigned calls i = None" by (rule last_assigned_None)
    then show ?thesis using c eq Cons.prems(3) by simp
  qed
qed

lemma distinct_concat_disjoint:
  "distinct (concat xss) \<Longrightarrow> i < j \<Longrightarrow> j < length xss \<Longrightarrow> set (xss ! i) \<inter> set (xss ! j) = {}"
proof (induction xss arbitrary: i j)
  case Nil
  then show ?case by simp
next
  case (Cons xs xss)
  obtain j' where j: "j = Suc j'" using Cons.prems(2) by (cases j) auto
  show ?case
  proof (cases i)
    case 0
    have "xss ! j' \<in> set xss" using Cons.prems(3) j by simp
    then have "set (xss ! j') \<subseteq> set (concat xss)" by auto
    then show ?thesis using Cons.prems(1) 0 j by auto
  next
    case (Suc i')
    then show ?thesis using Cons j by simp
  qed
qed

section \<open>The initial table\<close>

lemma fill_loop:
  "k \<le> length a \<Longrightarrow>
   fold (\<lambda>i olt. array_set olt i v) [0..<k] a = replicate k (Some v) @ drop k a"
proof (induction k)
  case 0
  then show ?case by simp
next
  case (Suc k)
  then have "k < length a" by simp
  then have "array_set (replicate k (Some v) @ drop k a) k v =
      replicate (Suc k) (Some v) @ drop (Suc k) a"
    by (simp add: array_set_def list_update_append replicate_append_same
        upd_conv_take_nth_drop Cons_nth_drop_Suc)
  then show ?case using Suc by simp
qed

lemma olt_init_eq: "olt_init = replicate 0xff (Some OPCODE_ONLY)"
  unfolding olt_init_def new_Array_def by (simp add: fill_loop)

lemma length_olt_init: "length olt_init = 0xff"
  by (simp add: olt_init_eq)

lemma array_get_olt_init:
  "array_get olt_init b = (if b < 0xff then Some OPCODE_ONLY else None)"
  by (simp add: olt_init_eq array_get_def)

lemma layoutOf_eq:
  "layoutOf b =
     (case last_assigned layout_assignments b of
        Some l \<Rightarrow> Some l
      | None \<Rightarrow> if b < 0xff then Some OPCODE_ONLY else None)"
  unfolding layoutOf_def OpcodeLayouts_def
  by (simp add: array_get_run_assignments array_get_olt_init split: option.splits)

lemma assigned_opcodes_distinct: "distinct (concat (map snd layout_assignments))"
  by (simp add: layout_assignments_def OpCode_defs)

lemma assigned_opcodes_members:
  "list_all (\<lambda>(l, ops). list_all (\<lambda>op. op \<in> set OpCode_members) ops) layout_assignments"
  by (simp add: layout_assignments_def OpCode_members_def OpCode_defs)

lemma OpCode_members_bound: "list_all (\<lambda>op. op \<le> 0xF2) OpCode_members"
  unfolding OpCode_members_def OpCode_defs by simp

lemma OpCode_members_distinct: "distinct OpCode_members"
  unfolding OpCode_members_def OpCode_defs by simp

lemma assigned_opcodes_in_range:
  "list_all (\<lambda>(l, ops). list_all (\<lambda>op. op < length olt_init) ops) layout_assignments"
  by (simp add: length_olt_init layout_assignments_def OpCode_defs)

section \<open>The claims about the opcode layout table\<close>

text \<open>
  For the bytes below \<open>0xff\<close> the lookup is defined, and a byte below \<open>0xff\<close> that no
  call lists has the layout \<open>OPCODE_ONLY\<close>.
\<close>

lemma layoutOf_defined_below_0xff: "b < 0xff \<Longrightarrow> \<exists>l. layoutOf b = Some l"
  by (simp add: layoutOf_eq split: option.splits)

lemma layoutOf_default_below_0xff:
  "b < 0xff \<Longrightarrow> b \<notin> set (concat (map snd layout_assignments)) \<Longrightarrow>
   layoutOf b = Some OPCODE_ONLY"
  by (simp add: layoutOf_eq last_assigned_None)

text \<open>
  Claim C1: the layout mapping is total over all 256 byte values, every byte
  \<open>b\<close> in 0..255 looks up to a defined layout. The table is created with \<open>0xff\<close> = 255
  slots and the loop fills the indices 0..254, so the byte \<open>0xff\<close> is beyond the end of
  the table and its lookup is \<^verbatim>\<open>undefined\<close>; the claim fails at \<open>b = 0xff\<close>.
\<close>

theorem layoutOf_0xff_undefined: "layoutOf 0xff = None"
  by (simp add: layoutOf_eq layout_assignments_def OpCode_defs)

text \<open>
  Claim C2: every \<^verbatim>\<open>_FAST\<close> opcode has the layout of its canonical opcode.
  \<open>MULTIANEWARRAY_FAST\<close> is listed in the \<open>CONSTANT_POOL\<close> call, while
  \<open>MULTIANEWARRAY\<close> is listed in the \<open>CONSTANT_POOL_AND_UINT8_VALUE\<close> call (next to
  \<open>INVOKEINTERFACE\<close> and \<open>INVOKEINTERFACE_FAST\<close>); the claim fails for this pair.
\<close>

theorem MULTIANEWARRAY_FAST_layout_differs:
  "layoutOf MULTIANEWARRAY_FAST = Some CONSTANT_POOL \<and>
   layoutOf MULTIANEWARRAY = Some CONSTANT_POOL_AND_UINT8_VALUE \<and>
   layoutOf MULTIANEWARRAY_FAST \<noteq> layoutOf MULTIANEWARRAY"
  by (simp add: layoutOf_eq layout_assignments_def OpCode_defs)

text \<open>Every other fast opcode has the layout of the opcode it is named after.\<close>

lemma other_fast_variants_agree:
  "list_all (\<lambda>(f, c). f = MULTIANEWARRAY_FAST \<or> layoutOf f = layoutOf c) fast_variants"
  by (simp add: fast_variants_def layoutOf_eq layout_assignments_def OpCode_defs)

text \<open>
  Claim C3: every opcode byte value that no \<^verbatim>\<open>assignOpcodeLayout\<close> call lists is mapped to
  \<open>OPCODE_ONLY\<close>. The byte \<open>0xff\<close> is listed by no call, and the table maps it to
  \<^verbatim>\<open>undefined\<close>, not to \<open>OPCODE_ONLY\<close>; the claim fails at \<open>0xff\<close>.
\<close>

theorem unassigned_0xff_not_OPCODE_ONLY:
  "0xff \<notin> set (concat (map snd layout_assignments)) \<and> layoutOf 0xff \<noteq> Some OPCODE_ONLY"
  by (simp add: layoutOf_eq layout_assignments_def OpCode_defs)

text \<open>
  Claim C4: every opcode listed in an assignment call is mapped to exactly the layout of
  that call, and no opcode value is listed in two different calls (indeed none is listed
  twice at all).
\<close>

theorem assigned_layout_exact:
  "(\<forall>(layoutType, opcodes) \<in> set layout_assignments. \<forall>op \<in> set opcodes.
      layoutOf op = Some layoutType) \<and>
   (\<forall>i < length layout_assignments. \<forall>j < length layout_assignments. i \<noteq> j \<longrightarrow>
      set (snd (layout_assignments ! i)) \<inter> set (snd (layout_assignments ! j)) = {}) \<and>
   distinct (concat (map snd layout_assignments))"
proof (intro conjI)
  show "\<forall>(layoutType, opcodes) \<in> set layout_assignments. \<forall>op \<in> set opcodes.
      layoutOf op = Some layoutType"
    using last_assigned_distinct [OF assigned_opcodes_distinct]
    by (auto simp: layoutOf_eq)
next
  have less: "set (snd (layout_assignments ! i)) \<inter> set (snd (layout_assignments ! j)) = {}"
    if "i < j" "j < length layout_assignments" for i j
    using distinct_concat_disjoint [OF assigned_opcodes_distinct that(1)] that by simp
  show "\<forall>i < length layout_assignments. \<forall>j < length layout_assignments. i \<noteq> j \<longrightarrow>
      set (snd (layout_assignments ! i)) \<inter> set (snd (layout_assignments ! j)) = {}"
  proof (intro allI impI)
    fix i j
    assume "i < length layout_assignments" "j < length layout_assignments" "i \<noteq> j"
    then consider "i < j" | "j < i" by linarith
    then show "set (snd (layout_assignments ! i)) \<inter> set (snd (layout_assignments ! j)) = {}"
    proof cases
      case 1
      then show ?thesis using less \<open>j < length layout_assignments\<close> by simp
    next
      case 2
      then show ?thesis using less [of j i] \<open>i < length layout_assignments\<close> by blast
    qed
  qed
next
  show "distinct (concat (map snd layout_assignments))"
    by (rule assigned_opcodes_distinct)
qed

theorem assigned_layout_exact_witness:
  "(CONSTANT_POOL_UINT8, [LDC]) \<in> set layout_assignments \<and> LDC \<in> set [LDC] \<and>
   layoutOf LDC = Some CONSTANT_POOL_UINT8 \<and>
   (0::nat) < length layout_assignments \<and> (1::nat) < length layout_assignments \<and> (0::nat) \<noteq> 1 \<and>
   set (snd (layout_assignments ! 0)) \<inter> set (snd (layout_assignments ! 1)) = {}"
proof -
  have m: "(CONSTANT_POOL_UINT8, [LDC]) \<in> set layout_assignments"
    by (simp add: layout_assignments_def)
  have n: "(0::nat) < length layout_assignments" "(1::nat) < length layout_assignments"
    by (simp_all add: layout_assignments_def)
  from assigned_layout_exact m have "layoutOf LDC = Some CONSTANT_POOL_UINT8"
    by fastforce
  moreover from assigned_layout_exact n
  have "set (snd (layout_assignments ! 0)) \<inter> set (snd (layout_assignments ! 1)) = {}"
    by (metis zero_neq_one)
  ultimately show ?thesis using m n by simp
qed

text \<open>
  Claim C5: table construction fails when two assignments target the same opcode, an
  assignment to an opcode that already has a non-default layout does not silently
  overwrite it. \<^verbatim>\<open>assignOpcodeLayout\<close> has no check: a second call listing \<open>LDC\<close>
  replaces the layout the first call stored, and construction yields a table.
\<close>

theorem assignOpcodeLayout_overwrite_counterexample:
  "array_get (run_assignments [(CONSTANT_POOL_UINT8, [LDC])] olt_init) LDC
     = Some CONSTANT_POOL_UINT8 \<and>
   array_get (run_assignments [(CONSTANT_POOL_UINT8, [LDC]), (CONSTANT_POOL, [LDC])] olt_init) LDC
     = Some CONSTANT_POOL"
  by (simp add: array_get_run_assignments)

text \<open>
  Claim C5 as amended: \<^verbatim>\<open>assignOpcodeLayout\<close> never fails and makes no check; it stores
  the given layout at every listed opcode whatever the slot held before, and leaves
  every other slot as it was.
\<close>

theorem assignOpcodeLayout_stores_unconditionally:
  "(opcode \<in> set opcodes \<longrightarrow>
      array_get (assignOpcodeLayout layoutType opcodes olt) opcode = Some layoutType) \<and>
   (opcode \<notin> set opcodes \<longrightarrow>
      array_get (assignOpcodeLayout layoutType opcodes olt) opcode = array_get olt opcode)"
  by (simp add: array_get_assignOpcodeLayout)

theorem assignOpcodeLayout_stores_unconditionally_witness:
  "LDC \<in> set [LDC] \<and>
   array_get (assignOpcodeLayout CONSTANT_POOL [LDC]
       (assignOpcodeLayout CONSTANT_POOL_UINT8 [LDC] olt_init)) LDC = Some CONSTANT_POOL \<and>
   BIPUSH \<notin> set [LDC] \<and>
   array_get (assignOpcodeLayout CONSTANT_POOL [LDC] olt_init) BIPUSH = array_get olt_init BIPUSH"
  using assignOpcodeLayout_stores_unconditionally
      [of LDC "[LDC]" CONSTANT_POOL "assignOpcodeLayout CONSTANT_POOL_UINT8 [LDC] olt_init"]
    assignOpcodeLayout_stores_unconditionally [of BIPUSH "[LDC]" CONSTANT_POOL olt_init]
  by (simp add: LDC_def BIPUSH_def)

text \<open>
  Claim C10: the members of \<^verbatim>\<open>OpCode\<close> have pairwise distinct values between \<open>0x00\<close>
  and \<open>0xF2\<close>; so every opcode passed to \<^verbatim>\<open>assignOpcodeLayout\<close> during construction
  is a member, indexes an initialised slot of the table, and no call writes beyond the
  end of the table: after every call the table still has its initial length.
\<close>

theorem OpCode_values_within_table:
  "distinct OpCode_members \<and>
   (\<forall>op \<in> set OpCode_members. 0x00 \<le> op \<and> op \<le> 0xF2) \<and>
   (\<forall>(layoutType, opcodes) \<in> set layout_assignments. \<forall>op \<in> set opcodes.
      op \<in> set OpCode_members \<and> op < length olt_init \<and>
      array_get olt_init op = Some OPCODE_ONLY) \<and>
   (\<forall>n \<le> length layout_assignments.
      length (run_assignments (take n layout_assignments) olt_init) = length olt_init)"
proof (intro conjI)
  show "distinct OpCode_members" by (rule OpCode_members_distinct)
next
  show "\<forall>op \<in> set OpCode_members. 0x00 \<le> op \<and> op \<le> 0xF2"
    using OpCode_members_bound by (simp add: list_all_iff)
next
  show "\<forall>(layoutType, opcodes) \<in> set layout_assignments. \<forall>op \<in> set opcodes.
      op \<in> set OpCode_members \<and> op < length olt_init \<and>
      array_get olt_init op = Some OPCODE_ONLY"
    using assigned_opcodes_members assigned_opcodes_in_range
    by (fastforce simp: list_all_iff array_get_olt_init length_olt_init)
next
  show "\<forall>n \<le> length layout_assignments.
      length (run_assignments (take n layout_assignments) olt_init) = length olt_init"
  proof (intro allI impI)
    fix n
    have "list_all (\<lambda>(l, ops). list_all (\<lambda>op. op < length olt_init) ops)
        (take n layout_assignments)"
      using assigned_opcodes_in_range
      by (auto simp: list_all_iff dest: in_set_takeD)
    then show "length (run_assignments (take n layout_assignments) olt_init) = length olt_init"
      by (rule length_run_assignments)
  qed
qed

theorem OpCode_values_within_table_witness:
  "INVOKEINTERFACE_FAST \<in> set OpCode_members \<and> INVOKEINTERFACE_FAST \<le> 0xF2 \<and>
   (ARRAY_TYPE, [NEWARRAY]) \<in> set layout_assignments \<and> NEWARRAY \<in> set [NEWARRAY] \<and>
   NEWARRAY \<in> set OpCode_members \<and> NEWARRAY < length olt_init \<and>
   array_get olt_init NEWARRAY = Some OPCODE_ONLY \<and>
   9 \<le> length layout_assignments \<and>
   length (run_assignments (take 9 layout_assignments) olt_init) = length olt_init"
proof -
  have a: "INVOKEINTERFACE_FAST \<in> set OpCode_members"
    by (simp add: OpCode_members_def)
  have b: "(ARRAY_TYPE, [NEWARRAY]) \<in> set layout_assignments"
    by (simp add: layout_assignments_def)
  have c: "9 \<le> length layout_assignments"
    by (simp add: layout_assignments_def)
  from OpCode_values_within_table a have "INVOKEINTERFACE_FAST \<le> 0xF2"
    by blast
  moreover from OpCode_values_within_table b
  have "NEWARRAY \<in> set OpCode_members \<and> NEWARRAY < length olt_init \<and>
      array_get olt_init NEWARRAY = Some OPCODE_ONLY"
    by fastforce
  moreover from OpCode_values_within_table c
  have "length (run_assignments (take 9 layout_assignments) olt_init) = length olt_init"
    by blast
  ultimately show ?thesis using a b c by simp
qed

section \<open>The claims about the numeric constants\<close>

text \<open>
  Claim C6: \<open>FLOAT_NEG_INFINITY_AS_INT\<close> is a decimal integer distinct from the 32-bit
  two's-complement reading of the negative-infinity bit pattern \<open>0xFF800000\<close>. The two
  are equal: \<open>0xFF800000 - 2^32 = -8388608\<close>.
\<close>

theorem FLOAT_NEG_INFINITY_AS_INT_counterexample:
  "\<not> FLOAT_NEG_INFINITY_AS_INT \<noteq> sint (0xFF800000 :: 32 word)"
  by (simp add: FLOAT_NEG_INFINITY_AS_INT_def)

text \<open>
  Claim C6 as amended: \<open>FLOAT_NEG_INFINITY_AS_INT\<close> is the decimal integer \<open>-8388608\<close>,
  which is the 32-bit two's-complement reading of the bit pattern \<open>0xFF800000\<close>; it
  differs from the unsigned reading \<open>4286578688\<close> of that pattern.
\<close>

theorem FLOAT_NEG_INFINITY_AS_INT_twos_complement:
  "FLOAT_NEG_INFINITY_AS_INT = -8388608 \<and>
   FLOAT_NEG_INFINITY_AS_INT = sint (0xFF800000 :: 32 word) \<and>
   word_of_int FLOAT_NEG_INFINITY_AS_INT = (0xFF800000 :: 32 word) \<and>
   uint (0xFF800000 :: 32 word) = 4286578688 \<and>
   FLOAT_NEG_INFINITY_AS_INT \<noteq> uint (0xFF800000 :: 32 word)"
  by (simp add: FLOAT_NEG_INFINITY_AS_INT_def)

text \<open>
  Claim C7: \<open>FLOAT_POS_INFINITY_AS_INT\<close> is \<open>0x7F800000\<close> (exponent bits all one,
  fraction zero) and the canonical NaN pattern \<open>FLOAT_NaN_AS_INT\<close> is \<open>0x7FC00000\<close>
  (exponent bits all one and the top fraction bit, the quiet bit, set).
\<close>

theorem float_pattern_constants:
  "FLOAT_POS_INFINITY_AS_INT = 0x7F800000 \<and> FLOAT_NaN_AS_INT = 0x7FC00000 \<and>
   FLOAT_POS_INFINITY_AS_INT = 0xFF * 2 ^ 23 \<and>
   FLOAT_NaN_AS_INT = 0xFF * 2 ^ 23 + 2 ^ 22"
  by (simp add: FLOAT_POS_INFINITY_AS_INT_def FLOAT_NaN_AS_INT_def)

section \<open>The round trip through the bit pattern\<close>

lemma bits_sign: "bit (float_bits f) 31 = sign f"
  unfolding float_bits_def
  by (auto simp add: bit_simps dest: bit_imp_le_length)

lemma bits_exponent: "ucast (drop_bit 23 (float_bits f)) = exponent f"
  unfolding float_bits_def
  by (rule bit_word_eqI) (auto simp add: bit_simps dest: bit_imp_le_length)

lemma bits_fraction: "ucast (float_bits f) = fraction f"
  unfolding float_bits_def
  by (rule bit_word_eqI) (auto simp add: bit_simps dest: bit_imp_le_length)

lemma decode_bits: "intBitsToFloat (sint (float_bits f)) = f"
  by (simp add: intBitsToFloat_def bits_sign bits_exponent bits_fraction)

lemma decode_pos_inf: "intBitsToFloat FLOAT_POS_INFINITY_AS_INT = POSITIVE_INFINITY"
  by (simp add: intBitsToFloat_def FLOAT_POS_INFINITY_AS_INT_def POSITIVE_INFINITY_def)

lemma decode_neg_inf: "intBitsToFloat FLOAT_NEG_INFINITY_AS_INT = NEGATIVE_INFINITY"
  by (simp add: intBitsToFloat_def FLOAT_NEG_INFINITY_AS_INT_def NEGATIVE_INFINITY_def)

lemma decode_nan: "intBitsToFloat FLOAT_NaN_AS_INT = Float32 False 0xFF 0x400000"
  by (simp add: intBitsToFloat_def FLOAT_NaN_AS_INT_def)

text \<open>The fixed patterns of the infinities are their bit patterns.\<close>

lemma infinity_patterns:
  "sint (float_bits POSITIVE_INFINITY) = FLOAT_POS_INFINITY_AS_INT"
  "sint (float_bits NEGATIVE_INFINITY) = FLOAT_NEG_INFINITY_AS_INT"
  by (simp_all add: float_bits_def POSITIVE_INFINITY_def NEGATIVE_INFINITY_def
      FLOAT_POS_INFINITY_AS_INT_def FLOAT_NEG_INFINITY_AS_INT_def)

lemma round_trip_not_NaN: "\<not> isNaN x \<Longrightarrow> intBitsToFloat (floatBitsToInt x) = x"
  by (simp add: floatBitsToInt_def decode_bits decode_pos_inf decode_neg_inf)

lemma round_trip_NaN:
  "isNaN x \<Longrightarrow> intBitsToFloat (floatBitsToInt x) = Float32 False 0xFF 0x400000"
  by (simp add: floatBitsToInt_def decode_nan)

text \<open>
  Claim C8: \<^verbatim>\<open>intBitsToFloat(floatBitsToInt(x))\<close> is \<open>x\<close> for every finite float
  \<open>x\<close> that is not NaN, and for a NaN the round trip is idempotent: applying it twice
  gives what applying it once gives.
\<close>

theorem float_int_round_trip:
  "(\<not> isNaN x \<and> isFinite x \<longrightarrow> intBitsToFloat (floatBitsToInt x) = x) \<and>
   (isNaN x \<longrightarrow>
      intBitsToFloat (floatBitsToInt (intBitsToFloat (floatBitsToInt x))) =
      intBitsToFloat (floatBitsToInt x))"
proof (intro conjI impI)
  assume "\<not> isNaN x \<and> isFinite x"
  then show "intBitsToFloat (floatBitsToInt x) = x"
    by (simp add: round_trip_not_NaN)
next
  assume nan: "isNaN x"
  have "isNaN (Float32 False 0xFF 0x400000)"
    by (simp add: isNaN_def)
  then show "intBitsToFloat (floatBitsToInt (intBitsToFloat (floatBitsToInt x))) =
      intBitsToFloat (floatBitsToInt x)"
    using nan by (simp add: round_trip_NaN)
qed

theorem float_int_round_trip_witness:
  "\<not> isNaN (Float32 True 0x7F 0x200000) \<and> isFinite (Float32 True 0x7F 0x200000) \<and>
   intBitsToFloat (floatBitsToInt (Float32 True 0x7F 0x200000)) = Float32 True 0x7F 0x200000 \<and>
   isNaN (Float32 True 0xFF 1) \<and>
   intBitsToFloat (floatBitsToInt (intBitsToFloat (floatBitsToInt (Float32 True 0xFF 1)))) =
     intBitsToFloat (floatBitsToInt (Float32 True 0xFF 1))"
  using float_int_round_trip [of "Float32 True 0x7F 0x200000"]
    float_int_round_trip [of "Float32 True 0xFF 1"]
  by (simp add: isNaN_def isFinite_def)

section \<open>The claim about the class lifecycle\<close>

lemma advance_cases:
  "advance s t = Inr s' \<Longrightarrow> s' = s \<or> ClassState_value s' = Suc (ClassState_value s)"
  by (auto simp: advance_def split: if_splits)

lemma observed_prefix: "prefix (observed s ts) (drop (ClassState_value s) lifecycle)"
proof (induction ts arbitrary: s)
  case Nil
  show ?case by (cases s) (simp_all add: lifecycle_def)
next
  case (Cons t ts)
  show ?case
  proof (cases "advance s t")
    case (Inl e)
    then show ?thesis using Cons [of s] by simp
  next
    case (Inr s')
    show ?thesis
    proof (cases "s' = s")
      case True
      then show ?thesis using Inr Cons [of s] by simp
    next
      case False
      then have v: "ClassState_value s' = Suc (ClassState_value s)"
        using advance_cases [OF Inr] by simp
      have "drop (ClassState_value s) lifecycle = s # drop (ClassState_value s') lifecycle"
        using v by (cases s; cases s') (simp_all add: lifecycle_def)
      then show ?thesis using Inr False Cons [of s'] by simp
    qed
  qed
qed

lemma observed_subseq: "subseq (observed s ts) lifecycle"
proof -
  have "subseq (observed s ts) (drop (ClassState_value s) lifecycle)"
    using observed_prefix by (rule prefix_imp_subseq)
  moreover have "subseq (drop (ClassState_value s) lifecycle) lifecycle"
    by (rule suffix_imp_subseq) (rule suffix_drop)
  ultimately show ?thesis by (rule subseq_order.trans)
qed

lemma lifecycle_increasing:
  "sorted_wrt (\<lambda>a b. ClassState_value a < ClassState_value b) lifecycle"
  by (simp add: lifecycle_def)

lemma subseq_sorted_wrt: "subseq xs ys \<Longrightarrow> sorted_wrt P ys \<Longrightarrow> sorted_wrt P xs"
  by (induction rule: list_emb.induct) (auto dest: list_emb_set)

lemma observed_example:
  "observed NOT_LOADED
     [INITIALIZED, LOADED, LOADED, NOT_LOADED, RESOLVED, INITIALIZED, INITIALIZED, LOADED]
   = [NOT_LOADED, LOADED, RESOLVED, INITIALIZED]"
  by (simp add: advance_def)

text \<open>
  Claim C9: the state of a class only increases and never regresses: the sequence of
  states observed over time is a subsequence of \<open>NOT_LOADED, LOADED, RESOLVED,
  INITIALIZED\<close>, and \<^verbatim>\<open>ClassState\<close> numbers its members increasingly in that order
  (0, 1, 2, 3).
\<close>

theorem class_state_monotonic:
  "subseq (observed s requests) [NOT_LOADED, LOADED, RESOLVED, INITIALIZED] \<and>
   sorted_wrt (\<lambda>a b. ClassState_value a < ClassState_value b) (observed s requests) \<and>
   map ClassState_value [NOT_LOADED, LOADED, RESOLVED, INITIALIZED] = [0, 1, 2, 3]"
  using observed_subseq [of s requests]
    subseq_sorted_wrt [OF observed_subseq lifecycle_increasing, of s requests]
  by (simp add: lifecycle_def)

end
